theory Spec2Isabelle
  imports Complex_Main "HOL-Library.Char_ord" "HOL-Library.List_Lexorder"
begin

section \<open>JavaScript numbers\<close>

text \<open>
  A JavaScript number is an IEEE double.  The model keeps the four kinds of value the
  code distinguishes: a finite value, the two infinities and NaN.  Finite values are
  exact rationals (rounding is not modelled), and the sign of a zero is not tracked;
  none of the comparisons below (\<open>===\<close>, \<open><=\<close>, \<open>>\<close>, truthiness) tells the two zeros
  apart.
\<close>

datatype jsnum = Fin rat | PInf | NInf | NaN

text \<open>\<open>x / y\<close> on two finite numbers.  The divisors met in the code are areas of
  host rectangles, whose zero is the positive zero.\<close>

definition js_div :: "rat \<Rightarrow> rat \<Rightarrow> jsnum" where
  "js_div x y =
     (if y \<noteq> 0 then Fin (x / y)
      else if x = 0 then NaN
      else if 0 < x then PInf
      else NInf)"

text \<open>\<open>x || 0\<close>: the falsy numbers are zero and NaN.\<close>

definition js_or_zero :: "jsnum \<Rightarrow> jsnum" where
  "js_or_zero x = (if x = NaN \<or> x = Fin 0 then Fin 0 else x)"

text \<open>\<open>x === y\<close> on numbers: NaN equals nothing, itself included.\<close>

definition js_strict_eq :: "jsnum \<Rightarrow> jsnum \<Rightarrow> bool" where
  "js_strict_eq x y = (x \<noteq> NaN \<and> y \<noteq> NaN \<and> x = y)"

text \<open>\<open>x <= y\<close> and \<open>x > y\<close> on numbers: every comparison with NaN is false.\<close>

fun js_le :: "jsnum \<Rightarrow> jsnum \<Rightarrow> bool" where
  "js_le NaN _ = False"
| "js_le _ NaN = False"
| "js_le NInf _ = True"
| "js_le _ PInf = True"
| "js_le (Fin a) (Fin b) = (a \<le> b)"
| "js_le (Fin a) NInf = False"
| "js_le PInf (Fin b) = False"
| "js_le PInf NInf = False"

fun js_gt :: "jsnum \<Rightarrow> jsnum \<Rightarrow> bool" where
  "js_gt NaN _ = False"
| "js_gt _ NaN = False"
| "js_gt PInf PInf = False"
| "js_gt PInf _ = True"
| "js_gt _ NInf = True"
| "js_gt (Fin a) (Fin b) = (b < a)"
| "js_gt (Fin a) PInf = False"
| "js_gt NInf (Fin b) = False"
| "js_gt NInf PInf = False"

section \<open>Errors, values and strings of the host language\<close>

text \<open>Every \<open>throw\<close> of the source is a value: the constructor of the error and its
  message.\<close>

datatype js_error = TypeError string | RangeError string | Error string

text \<open>The primitive values an option or a setter can be given, and \<open>Number(v)\<close> on
  them (strings and objects are not modelled).\<close>

datatype jsprim = PUndefined | PNull | PBool bool | PNum jsnum

fun toNumber :: "jsprim \<Rightarrow> jsnum" where
  "toNumber PUndefined = NaN"
| "toNumber PNull = Fin 0"
| "toNumber (PBool b) = Fin (if b then 1 else 0)"
| "toNumber (PNum n) = n"

fun typeof :: "jsprim \<Rightarrow> string" where
  "typeof PUndefined = ''undefined''"
| "typeof PNull = ''object''"
| "typeof (PBool b) = ''boolean''"
| "typeof (PNum n) = ''number''"

text \<open>\<open>Number(s)\<close> on a string that \<open>typeof\<close> returns: none of them is a numeric
  literal, so the result is NaN.\<close>

definition typeNameToNumber :: "string \<Rightarrow> jsnum" where
  "typeNameToNumber s = NaN"

fun js_lt :: "jsnum \<Rightarrow> jsnum \<Rightarrow> bool" where
  "js_lt x y = js_gt y x"

text \<open>
  \<open>Number::toString\<close> of ECMAScript, for a finite number.  The standard writes the
  number as \<open>s \<times> 10\<^sup>n\<^sup>-\<^sup>k\<close> with \<open>k\<close> digits \<open>s\<close>, \<open>k\<close> as small as possible, and
  chooses between the plain and the exponent notation by \<open>n\<close>.  A number of the model
  stands for the double whose shortest decimal it is, so its digits are those of its
  own decimal expansion (at most 17 of them, as for a double).
\<close>

text \<open>The \<open>n\<close> of the standard: \<open>10\<^sup>n\<^sup>-\<^sup>1 \<le> q < 10\<^sup>n\<close>.\<close>

function exponent10 :: "rat \<Rightarrow> int" where
  "exponent10 q =
     (if q \<le> 0 then 0
      else if 10 \<le> q then exponent10 (q / 10) + 1
      else if q < 1 then exponent10 (q * 10) - 1
      else 1)"
  by pat_completeness auto
termination
proof (relation "measures [\<lambda>q. nat \<lceil>1 / q\<rceil>, \<lambda>q. nat \<lceil>q\<rceil>]")
  show "wf (measures [\<lambda>q::rat. nat \<lceil>1 / q\<rceil>, \<lambda>q. nat \<lceil>q\<rceil>])" by simp
next
  fix q :: rat
  assume a: "\<not> q \<le> 0" "10 \<le> q"
  have "\<lceil>1 / q\<rceil> = 1" using a by (simp add: ceiling_eq_iff)
  moreover have "\<lceil>1 / (q / 10)\<rceil> = 1" using a by (simp add: ceiling_eq_iff)
  moreover have "\<lceil>q / 10\<rceil> < \<lceil>q\<rceil>"
  proof -
    have "q / 10 \<le> q - 1" using a by simp
    then have "\<lceil>q / 10\<rceil> \<le> \<lceil>q - 1\<rceil>" by (rule ceiling_mono)
    also have "\<dots> = \<lceil>q\<rceil> - 1" by simp
    finally show ?thesis by simp
  qed
  moreover have "0 < \<lceil>q\<rceil>" using a by (simp add: less_ceiling_iff)
  ultimately show "(q / 10, q) \<in> measures [\<lambda>q. nat \<lceil>1 / q\<rceil>, \<lambda>q. nat \<lceil>q\<rceil>]"
    using a by auto
next
  fix q :: rat
  assume a: "\<not> q \<le> 0" "\<not> 10 \<le> q" "q < 1"
  have x: "1 < 1 / q" using a by simp
  have "\<lceil>1 / (q * 10)\<rceil> < \<lceil>1 / q\<rceil>"
  proof (cases "1 / q \<le> 10")
    case True
    then have "1 / (q * 10) \<le> 1" using a by (simp add: field_simps)
    then have "\<lceil>1 / (q * 10)\<rceil> \<le> 1" by (simp add: ceiling_le_iff)
    moreover have "1 < \<lceil>1 / q\<rceil>" using x by (simp add: less_ceiling_iff)
    ultimately show ?thesis by linarith
  next
    case False
    then have "10 < 1 / q" by simp
    then have "1 / (q * 10) \<le> 1 / q - 1" using a by (simp add: field_simps)
    then have "\<lceil>1 / (q * 10)\<rceil> \<le> \<lceil>1 / q - 1\<rceil>" by (rule ceiling_mono)
    also have "\<dots> = \<lceil>1 / q\<rceil> - 1" by simp
    finally show ?thesis by simp
  qed
  moreover have "0 < \<lceil>1 / q\<rceil>" using a by (simp add: less_ceiling_iff)
  ultimately show "(q * 10, q) \<in> measures [\<lambda>q. nat \<lceil>1 / q\<rceil>, \<lambda>q. nat \<lceil>q\<rceil>]"
    by auto
qed

declare exponent10.simps [simp del]

definition digitChar :: "nat \<Rightarrow> char" where
  "digitChar d = ''0123456789'' ! d"

fun decString :: "nat \<Rightarrow> string" where
  "decString n =
     (if n < 10 then [digitChar n] else decString (n div 10) @ [digitChar (n mod 10)])"

declare decString.simps [simp del]

text \<open>The digits of \<open>m\<close>, \<open>1 \<le> m < 10\<close>, from the leading one on.\<close>

fun mantissaDigits :: "nat \<Rightarrow> rat \<Rightarrow> nat list" where
  "mantissaDigits 0 m = []"
| "mantissaDigits (Suc fuel) m =
     (let d = nat \<lfloor>m\<rfloor>; rest = (m - of_nat d) * 10
      in d # (if rest = 0 then [] else mantissaDigits fuel rest))"

definition stripZeros :: "nat list \<Rightarrow> nat list" where
  "stripZeros ds = rev (dropWhile (\<lambda>d. d = 0) (rev ds))"

definition scale10 :: "rat \<Rightarrow> int \<Rightarrow> rat" where
  "scale10 q e = (if 0 \<le> e then q * 10 ^ nat e else q / 10 ^ nat (- e))"

definition positiveToString :: "rat \<Rightarrow> string" where
  "positiveToString q =
     (let n = exponent10 q;
          s = stripZeros (mantissaDigits 17 (scale10 q (1 - n)));
          k = int (length s);
          digits = map digitChar s
      in if k \<le> n \<and> n \<le> 21 then digits @ replicate (nat (n - k)) CHR ''0''
         else if 0 < n \<and> n \<le> 21 then take (nat n) digits @ ''.'' @ drop (nat n) digits
         else if -6 < n \<and> n \<le> 0 then ''0.'' @ replicate (nat (- n)) CHR ''0'' @ digits
         else (let e = n - 1;
                   expo = (if e < 0 then ''-'' else ''+'') @ decString (nat \<bar>e\<bar>)
               in if k = 1 then digits @ ''e'' @ expo
                  else take 1 digits @ ''.'' @ drop 1 digits @ ''e'' @ expo))"

definition numberToString :: "rat \<Rightarrow> string" where
  "numberToString q =
     (if q = 0 then ''0''
      else if q < 0 then ''-'' @ positiveToString (- q)
      else positiveToString q)"

text \<open>
  \<open>Array.prototype.sort()\<close> without a comparator, on an array of finite numbers: the
  elements are ordered by their strings, compared code unit by code unit (the order of
  \<open>char list\<close>), and equal strings keep their order.
\<close>

definition defaultSort :: "rat list \<Rightarrow> rat list" where
  "defaultSort xs = sort_key numberToString xs"

text \<open>
  \<open>s.split(/\s+/)\<close>: every maximal run of white space is one separator; a separator
  at either end leaves an empty string there.  Characters are the code units up to
  255, of which the regular expression's \<open>\s\<close> holds these seven.
\<close>

definition isSpace :: "char \<Rightarrow> bool" where
  "isSpace c = (of_char c \<in> {9, 10, 11, 12, 13, 32, 160 :: nat})"

function splitFrom :: "string \<Rightarrow> string \<Rightarrow> string list" where
  "splitFrom cur [] = [cur]"
| "splitFrom cur (c # cs) =
     (if isSpace c then cur # splitFrom [] (dropWhile isSpace cs)
      else splitFrom (cur @ [c]) cs)"
  by pat_completeness auto
termination
  by (relation "measure (\<lambda>(cur, s). length s)")
     (auto simp: length_dropWhile_le intro: le_imp_less_Suc)

definition splitSpaces :: "string \<Rightarrow> string list" where
  "splitSpaces s = splitFrom [] s"

text \<open>\<open>xs.join(' ')\<close>.\<close>

fun joinSpaces :: "string list \<Rightarrow> string" where
  "joinSpaces [] = []"
| "joinSpaces [x] = x"
| "joinSpaces (x # y # ys) = x @ '' '' @ joinSpaces (y # ys)"

text \<open>
  The match of \<open>/^(-?\d*\.?\d+)(px|%)$/\<close> against a token: the two groups, if the
  token matches.  The number group is an optional minus sign, then either digits
  alone (at least one) or digits (possibly none), a dot and at least one digit.
\<close>

definition isDigit :: "char \<Rightarrow> bool" where
  "isDigit c = (48 \<le> (of_char c :: nat) \<and> (of_char c :: nat) \<le> 57)"

definition matchesNumber :: "string \<Rightarrow> bool" where
  "matchesNumber v =
     (let body = (case v of c # cs \<Rightarrow> (if c = CHR ''-'' then cs else v) | [] \<Rightarrow> v);
          wholeDigits = takeWhile isDigit body;
          rest = dropWhile isDigit body
      in case rest of
           [] \<Rightarrow> wholeDigits \<noteq> []
         | c # fracDigits \<Rightarrow> c = CHR ''.'' \<and> fracDigits \<noteq> [] \<and> list_all isDigit fracDigits)"

definition matchToken :: "string \<Rightarrow> (string \<times> string) option" where
  "matchToken token =
     (let n = length token in
      if 2 \<le> n \<and> drop (n - 2) token = ''px'' \<and> matchesNumber (take (n - 2) token)
      then Some (take (n - 2) token, ''px'')
      else if 1 \<le> n \<and> drop (n - 1) token = ''%'' \<and> matchesNumber (take (n - 1) token)
      then Some (take (n - 1) token, ''%'')
      else None)"

text \<open>\<open>parseFloat\<close> on a string the number group matched.  A decimal of magnitude
  \<open>2\<^sup>1\<^sup>0\<^sup>2\<^sup>4 - 2\<^sup>9\<^sup>7\<^sup>0\<close> or more rounds to an infinity.\<close>

definition digitsValue :: "string \<Rightarrow> nat" where
  "digitsValue ds = foldl (\<lambda>acc c. 10 * acc + (of_char c - 48)) 0 ds"

definition parseFloat :: "string \<Rightarrow> jsnum" where
  "parseFloat v =
     (let negative = (v \<noteq> [] \<and> hd v = CHR ''-'');
          body = (if negative then tl v else v);
          wholeDigits = takeWhile isDigit body;
          fracDigits = drop 1 (dropWhile isDigit body);
          q = of_nat (digitsValue wholeDigits)
              + of_nat (digitsValue fracDigits) / 10 ^ length fracDigits
      in if 2 ^ 1024 - 2 ^ 970 \<le> q then (if negative then NInf else PInf)
         else Fin (if negative then - q else q))"

section \<open>Geometry (geometry.js)\<close>

record rect =
  r_left :: rat
  r_top :: rat
  r_width :: rat
  r_height :: rat
  r_bottom :: rat
  r_right :: rat

definition createRectangle :: "rat \<Rightarrow> rat \<Rightarrow> rat \<Rightarrow> rat \<Rightarrow> rect" where
  "createRectangle l t w h =
     \<lparr>r_left = l, r_top = t, r_width = w, r_height = h,
      r_bottom = t + h, r_right = l + w\<rparr>"

definition emptyRect :: rect where
  "emptyRect = createRectangle 0 0 0 0"

definition getArea :: "rect \<Rightarrow> rat" where
  "getArea r = r_width r * r_height r"

definition isEmpty :: "rect \<Rightarrow> bool" where
  "isEmpty r = (r_height r = 0 \<and> r_width r = 0)"

definition isEqual :: "rect \<Rightarrow> rect \<Rightarrow> bool" where
  "isEqual first second =
     (r_top first = r_top second \<and> r_left first = r_left second \<and>
      r_right first = r_right second \<and> r_bottom first = r_bottom second)"

text \<open>A rectangle as the host and \<open>createRectangle\<close> give it: the right and bottom
  edges are where the left and top edges plus the extent are.\<close>

definition rect_consistent :: "rect \<Rightarrow> bool" where
  "rect_consistent r =
     (r_right r = r_left r + r_width r \<and> r_bottom r = r_top r + r_height r)"

section \<open>Entries and observations (IntersectionObserverEntry.js, IntersectionObservation)\<close>

text \<open>Elements are identified by numbers.  \<open>mapToClientRect\<close> copies a rectangle field
  by field, so an entry holds the rectangles themselves.\<close>

record entry =
  e_boundingClientRect :: rect
  e_intersectionRatio :: jsnum
  e_intersectionRect :: rect
  e_rootBounds :: rect
  e_target :: nat
  e_time :: rat

definition IntersectionObserverEntry ::
  "nat \<Rightarrow> rect \<Rightarrow> rect \<Rightarrow> jsnum \<Rightarrow> rect \<Rightarrow> rat \<Rightarrow> entry" where
  "IntersectionObserverEntry target targetRect intersecRect intersecRatio rootBounds time =
     \<lparr>e_boundingClientRect = targetRect, e_intersectionRatio = intersecRatio,
      e_intersectionRect = intersecRect, e_rootBounds = rootBounds,
      e_target = target, e_time = time\<rparr>"

text \<open>
  What the host reports about one target at the moment it is measured against a
  container: its client rectangle, whether \<open>isDetached\<close> holds, the chain of parents
  walked by \<open>getIntersection\<close>, and the reading of \<open>now()\<close> taken if an entry is built.
  The chain of an attached target always ends at the container or at a node that is
  not an element (the document), which is where the loop stops: \<open>RootReached\<close>.  A
  parent below that point either clips (\<open>overflow\<close> is not \<open>visible\<close>; its rectangle is
  given) or does not.
\<close>

datatype ancestors = RootReached | Clipping rect ancestors | Visible ancestors

record layout =
  l_rect :: rect
  l_detached :: bool
  l_parents :: ancestors
  l_now :: rat

definition computeIntersection :: "rect \<Rightarrow> rect \<Rightarrow> rect" where
  "computeIntersection rootRect targetRect =
     (let l = max (r_left targetRect) (r_left rootRect);
          r = min (r_right targetRect) (r_right rootRect);
          t = max (r_top targetRect) (r_top rootRect);
          b = min (r_bottom targetRect) (r_bottom rootRect);
          w = r - l;
          h = b - t
      in createRectangle l t w h)"

fun getIntersection :: "ancestors \<Rightarrow> rect \<Rightarrow> rect \<Rightarrow> rect" where
  "getIntersection RootReached containterRect intersecRect =
     computeIntersection intersecRect containterRect"
| "getIntersection (Clipping parentRect parent) containterRect intersecRect =
     getIntersection parent containterRect (computeIntersection intersecRect parentRect)"
| "getIntersection (Visible parent) containterRect intersecRect =
     getIntersection parent containterRect intersecRect"

record intersection =
  i_rect :: rect
  i_ratio :: jsnum
  i_exists :: bool

definition getIntersectionData :: "layout \<Rightarrow> rect \<Rightarrow> rect \<Rightarrow> intersection" where
  "getIntersectionData lay containterRect targetRect =
     (let detached = l_detached lay;
          intersecRect = (if \<not> detached
                          then getIntersection (l_parents lay) containterRect targetRect
                          else emptyRect);
          intersects = (\<not> detached \<and> 0 \<le> r_width intersecRect \<and> 0 \<le> r_height intersecRect);
          intersecRatio = js_or_zero (js_div (getArea intersecRect) (getArea targetRect))
      in \<lparr>i_rect = intersecRect, i_ratio = intersecRatio, i_exists = intersects\<rparr>)"

record observation =
  prevTargetRect :: rect
  prevThreshold :: nat
  prevRatio :: jsnum

definition IntersectionObservation :: observation where
  "IntersectionObservation =
     \<lparr>prevTargetRect = emptyRect, prevThreshold = 0, prevRatio = Fin 0\<rparr>"

section \<open>The observer (_IntersectionObserver.js)\<close>

text \<open>A parsed margin: \<open>{value, pixels}\<close>.\<close>

record margin =
  m_value :: rat
  m_pixels :: bool

text \<open>The internal observer.  \<open>_targets\<close> is a Map from target to observation, kept in
  insertion order; an observation belongs to the observer that holds it.\<close>

record observer =
  thresholds :: "rat list"
  rootMargin :: string
  rootMarginParsed :: "margin list"
  targets :: "(nat \<times> observation) list"
  quedEntries :: "entry list"

function thresholdScan :: "rat list \<Rightarrow> jsnum \<Rightarrow> nat \<Rightarrow> nat" where
  "thresholdScan ths ratio index =
     (if index < length ths \<and> js_le (Fin (ths ! index)) ratio
      then thresholdScan ths ratio (index + 1)
      else index)"
  by pat_completeness auto
termination
  by (relation "measure (\<lambda>(ths, ratio, index). length ths - index)") auto

declare thresholdScan.simps [simp del]

definition getThresholdGreaterThan :: "observer \<Rightarrow> jsnum \<Rightarrow> nat" where
  "getThresholdGreaterThan obsr ratio = thresholdScan (thresholds obsr) ratio 0"

definition queueEntry :: "observer \<Rightarrow> entry \<Rightarrow> observer" where
  "queueEntry obsr e = obsr\<lparr>quedEntries := quedEntries obsr @ [e]\<rparr>"

definition hasEntries :: "observer \<Rightarrow> bool" where
  "hasEntries obsr = (quedEntries obsr \<noteq> [])"

definition takeRecords :: "observer \<Rightarrow> entry list \<times> observer" where
  "takeRecords obsr = (quedEntries obsr, obsr\<lparr>quedEntries := []\<rparr>)"

record changes =
  ratioChanged :: bool
  thresholdChanged :: bool
  targetRectChanged :: bool

text \<open>The threshold index that \<open>updateIntersection\<close> computes: 0 or 1 for whether the
  intersection exists, replaced by the index found among the thresholds if the
  intersection exists and the target's rectangle is not empty.\<close>

definition newThreshold :: "observer \<Rightarrow> rect \<Rightarrow> intersection \<Rightarrow> nat" where
  "newThreshold obsr targetRect isec =
     (if i_exists isec \<and> \<not> isEmpty targetRect
      then getThresholdGreaterThan obsr (i_ratio isec)
      else (if i_exists isec then 1 else 0))"

text \<open>\<open>updateIntersection\<close> of the observation of \<open>target\<close>, owned by \<open>obsr\<close>: the
  changes it reports, the observation with its cache updated, and the observer with
  the entry queued, if one was.\<close>

definition updateIntersection ::
  "nat \<Rightarrow> layout \<Rightarrow> rect \<Rightarrow> observer \<Rightarrow> observation \<Rightarrow> changes \<times> observation \<times> observer" where
  "updateIntersection target lay rootRect obsr obs =
     (let targetRect = l_rect lay;
          isec = getIntersectionData lay rootRect targetRect;
          ratioCh = (\<not> js_strict_eq (i_ratio isec) (prevRatio obs));
          targetRectCh = (\<not> isEqual targetRect (prevTargetRect obs));
          threshold = newThreshold obsr targetRect isec;
          thresholdCh = (threshold \<noteq> prevThreshold obs);
          obs' = obs\<lparr>prevTargetRect := targetRect, prevThreshold := threshold,
                     prevRatio := i_ratio isec\<rparr>;
          isec' = (if \<not> i_exists isec
                    then isec\<lparr>i_ratio := Fin 0, i_rect := emptyRect\<rparr>
                    else isec);
          obsr' = (if thresholdCh
                   then queueEntry obsr
                          (IntersectionObserverEntry target targetRect (i_rect isec')
                             (i_ratio isec') rootRect (l_now lay))
                   else obsr)
      in (\<lparr>ratioChanged = ratioCh, thresholdChanged = thresholdCh,
           targetRectChanged = targetRectCh\<rparr>, obs', obsr'))"

subsection \<open>Parsing the options\<close>

text \<open>The \<open>threshold\<close> option: one value, or an array of values.\<close>

datatype threshold_option = Single jsprim | Many "jsprim list"

text \<open>The callback of \<open>map\<close> in \<open>parseThresholds\<close>, run over the array from the left;
  the first threshold it refuses ends the call.\<close>

fun checkThresholds :: "jsprim list \<Rightarrow> js_error + rat list" where
  "checkThresholds [] = Inr []"
| "checkThresholds (v # vs) =
     (case toNumber v of
        Fin threshold \<Rightarrow>
          (if threshold < 0 \<or> 1 < threshold
           then Inl (RangeError ''Threshold values must be between 0 and 1.'')
           else (case checkThresholds vs of
                   Inl e \<Rightarrow> Inl e
                 | Inr rest \<Rightarrow> Inr (threshold # rest)))
      | _ \<Rightarrow> Inl (TypeError ''The provided double value is non-finite.''))"

definition parseThresholds :: "threshold_option \<Rightarrow> js_error + rat list" where
  "parseThresholds arg =
     (let given = (if arg = Single PUndefined then Single (PNum (Fin 0)) else arg);
          result = (case given of
                      Single v \<Rightarrow> [v]
                    | Many vs \<Rightarrow> (if vs = [] then [PNum (Fin 0)] else vs))
      in case checkThresholds result of
           Inl e \<Rightarrow> Inl e
         | Inr numbers \<Rightarrow> Inr (defaultSort numbers))"

text \<open>The callback of \<open>map\<close> in \<open>parseMargins\<close>.\<close>

definition parseToken :: "string \<Rightarrow> js_error + margin" where
  "parseToken token =
     (case matchToken token of
        None \<Rightarrow> Inl (Error ''rootMargin must be specified in pixels or percent.'')
      | Some (number, unit) \<Rightarrow>
          (let pixels = (unit = ''px'') in
           case parseFloat number of
             Fin v \<Rightarrow> Inr \<lparr>m_value = (if \<not> pixels then v / 100 else v), m_pixels = pixels\<rparr>
           | _ \<Rightarrow> Inl (Error ''rootMargin must be specified in pixels or percent.'')))"

fun parseTokens :: "string list \<Rightarrow> js_error + margin list" where
  "parseTokens [] = Inr []"
| "parseTokens (t # ts) =
     (case parseToken t of
        Inl e \<Rightarrow> Inl e
      | Inr m \<Rightarrow> (case parseTokens ts of Inl e \<Rightarrow> Inl e | Inr ms \<Rightarrow> Inr (m # ms)))"

text \<open>\<open>margins[i] || d\<close>: an index past the end reads \<open>undefined\<close>, which is falsy as
  the empty string is.\<close>

definition tokenOr :: "string list \<Rightarrow> nat \<Rightarrow> string \<Rightarrow> string" where
  "tokenOr margins i d = (if i < length margins \<and> margins ! i \<noteq> [] then margins ! i else d)"

text \<open>\<open>parseMargins\<close>; the argument is \<open>None\<close> when the option is undefined.\<close>

definition parseMargins :: "string option \<Rightarrow> js_error + (string \<times> margin list)" where
  "parseMargins arg =
     (let margins = splitSpaces (case arg of None \<Rightarrow> ''0px'' | Some text \<Rightarrow> text) in
      if 4 < length margins
      then Inl (Error ''Extra text found at the end of rootMargin.'')
      else (let m0 = tokenOr margins 0 ''0px'';
                m1 = tokenOr margins 1 m0;
                m2 = tokenOr margins 2 m0;
                m3 = tokenOr margins 3 m1;
                rawData = joinSpaces [m0, m1, m2, m3]
            in case parseTokens [m0, m1, m2, m3] of
                 Inl e \<Rightarrow> Inl e
               | Inr parsedData \<Rightarrow> Inr (rawData, parsedData)))"

text \<open>\<open>applyMargins\<close>.  The list of margins has the four components \<open>parseMargins\<close>
  returns.\<close>

definition marginPixels :: "rect \<Rightarrow> margin list \<Rightarrow> nat \<Rightarrow> rat" where
  "marginPixels targetRect margins index =
     (let m = margins ! index in
      if \<not> m_pixels m
      then m_value m * (if index mod 2 \<noteq> 0 then r_width targetRect else r_height targetRect)
      else m_value m)"

definition applyMargins :: "rect \<Rightarrow> margin list \<Rightarrow> rect" where
  "applyMargins targetRect margins =
     (let t = r_top targetRect - marginPixels targetRect margins 0;
          r = r_right targetRect + marginPixels targetRect margins 1;
          b = r_bottom targetRect + marginPixels targetRect margins 2;
          l = r_left targetRect - marginPixels targetRect margins 3
      in \<lparr>r_left = l, r_top = t, r_width = r - l, r_height = b - t,
          r_bottom = b, r_right = r\<rparr>)"

subsection \<open>Construction\<close>

text \<open>The arguments of the constructor, as far as it looks at them.\<close>

record constructor_args =
  a_callbackIsFunction :: bool
  a_optionsIsObject :: bool
  a_rootGiven :: bool
  a_rootIsElement :: bool
  a_threshold :: threshold_option
  a_rootMargin :: "string option"

definition newObserver :: "constructor_args \<Rightarrow> js_error + observer" where
  "newObserver args =
     (if \<not> a_callbackIsFunction args
      then Inl (TypeError ''The callback provided as parameter 1 is not a function.'')
      else if \<not> a_optionsIsObject args
      then Inl (TypeError ''parameter 2 is not an object.'')
      else if a_rootGiven args \<and> \<not> a_rootIsElement args
      then Inl (TypeError ''member root is not of type Element.'')
      else (case parseThresholds (a_threshold args) of
              Inl e \<Rightarrow> Inl e
            | Inr ths \<Rightarrow>
                (case parseMargins (a_rootMargin args) of
                   Inl e \<Rightarrow> Inl e
                 | Inr (rawData, parsedData) \<Rightarrow>
                     Inr \<lparr>thresholds = ths, rootMargin = rawData,
                          rootMarginParsed = parsedData, targets = [], quedEntries = []\<rparr>)))"

section \<open>The controller and the observers it drives\<close>

text \<open>
  The fields of \<open>IntersectionObserverController\<close>.  Observers are objects compared by
  identity: the controller's list holds their identifiers, and the world below maps an
  identifier to the observer's state.  \<open>mutationsObserver\<close> tells whether the field
  holds a \<open>MutationObserver\<close>.
\<close>

record controller =
  idleTimeout :: jsnum
  trackHovers :: bool
  cycleStartTime :: rat
  isUpdateScheduled :: bool
  repeatCycle :: bool
  hoverInitiated :: bool
  mutationsObserver :: bool
  isListening :: bool
  observers :: "nat list"

definition newController :: "jsnum \<Rightarrow> bool \<Rightarrow> controller" where
  "newController timeout hovers =
     \<lparr>idleTimeout = timeout, trackHovers = hovers, cycleStartTime = - 1,
      isUpdateScheduled = False, repeatCycle = False, hoverInitiated = False,
      mutationsObserver = False, isListening = False, observers = []\<rparr>"

text \<open>
  The world: the controller, the observers, and what the code has asked of the host:
  the number of animation frames requested so far, the events of \<open>window\<close> listened
  to, whether the debounced repeat handler has a timer pending, whether the mutation
  observer is observing the document, and the batches handed to callbacks (with the
  observer they belong to).  A callback is the caller's code: the model records the
  call and does not run it.
\<close>

record world =
  w_controller :: controller
  w_observer :: "nat \<Rightarrow> observer"
  w_frames :: nat
  w_listeners :: "string list"
  w_repeatTimer :: bool
  w_mutationsObserved :: bool
  w_delivered :: "(nat \<times> entry list) list"

text \<open>
  What the host answers during one call: whether \<open>MutationObserver\<close> exists, the
  reading of \<open>now()\<close> in the controller, the rectangle of each observer's root and the
  layout of each target against each observer's root.
\<close>

record host =
  h_mutationsSupported :: bool
  h_now :: rat
  h_rootRect :: "nat \<Rightarrow> rect"
  h_layout :: "nat \<Rightarrow> nat \<Rightarrow> layout"

definition setIdleTimeout :: "jsnum \<Rightarrow> world \<Rightarrow> world" where
  "setIdleTimeout v w = w\<lparr>w_controller := (w_controller w)\<lparr>idleTimeout := v\<rparr>\<rparr>"

definition isConnected :: "world \<Rightarrow> nat \<Rightarrow> bool" where
  "isConnected w ob = (ob \<in> set (observers (w_controller w)))"

text \<open>\<open>scheduleUpdate()\<close> called without a timestamp: the last branch of the method.\<close>

definition requestUpdate :: "world \<Rightarrow> world" where
  "requestUpdate w =
     (if \<not> isUpdateScheduled (w_controller w)
      then w\<lparr>w_frames := w_frames w + 1,
             w_controller := (w_controller w)\<lparr>isUpdateScheduled := True\<rparr>\<rparr>
      else w)"

definition startUpdateCycle :: "host \<Rightarrow> world \<Rightarrow> world" where
  "startUpdateCycle h w =
     requestUpdate (w\<lparr>w_controller := (w_controller w)\<lparr>cycleStartTime := h_now h\<rparr>\<rparr>)"

definition addHoverListener :: "world \<Rightarrow> world" where
  "addHoverListener w =
     (if hoverInitiated (w_controller w) then w
      else w\<lparr>w_listeners := List.insert ''mouseover'' (w_listeners w),
             w_controller := (w_controller w)\<lparr>hoverInitiated := True\<rparr>\<rparr>)"

definition removeHoverListener :: "world \<Rightarrow> world" where
  "removeHoverListener w =
     (if \<not> hoverInitiated (w_controller w) then w
      else w\<lparr>w_listeners := removeAll ''mouseover'' (w_listeners w),
             w_controller := (w_controller w)\<lparr>hoverInitiated := False\<rparr>\<rparr>)"

definition initListeners :: "host \<Rightarrow> world \<Rightarrow> world" where
  "initListeners h w =
     (if isListening (w_controller w) then w
      else (let w1 = w\<lparr>w_controller := (w_controller w)\<lparr>isListening := True\<rparr>,
                        w_listeners := List.insert ''scroll''
                                         (List.insert ''resize'' (w_listeners w))\<rparr>;
                w2 = (if trackHovers (w_controller w1) then addHoverListener w1 else w1)
            in if \<not> h_mutationsSupported h
               then startUpdateCycle h
                      (w2\<lparr>w_controller := (w_controller w2)\<lparr>repeatCycle := True\<rparr>,
                          w_listeners := List.insert ''click'' (w_listeners w2)\<rparr>)
               else w2\<lparr>w_controller := (w_controller w2)\<lparr>mutationsObserver := True\<rparr>,
                       w_mutationsObserved := True\<rparr>))"

definition removeListeners :: "host \<Rightarrow> world \<Rightarrow> world" where
  "removeListeners h w =
     (if \<not> isListening (w_controller w) then w
      else (let w1 = removeHoverListener
                       (w\<lparr>w_listeners := removeAll ''scroll''
                                            (removeAll ''resize'' (w_listeners w))\<rparr>);
                w2 = (if \<not> h_mutationsSupported h
                      then w1\<lparr>w_controller := (w_controller w1)\<lparr>repeatCycle := False\<rparr>,
                              w_listeners := removeAll ''click'' (w_listeners w1)\<rparr>
                      else if mutationsObserver (w_controller w1)
                      then w1\<lparr>w_controller := (w_controller w1)\<lparr>mutationsObserver := False\<rparr>,
                              w_mutationsObserved := False\<rparr>
                      else w1)
            in w2\<lparr>w_controller := (w_controller w2)\<lparr>isListening := False\<rparr>\<rparr>))"

text \<open>\<open>connect\<close> and \<open>disconnect\<close> of the controller.  \<open>splice(index, 1)\<close> at the index
  \<open>indexOf\<close> found removes the first occurrence.\<close>

definition controllerConnect :: "host \<Rightarrow> world \<Rightarrow> nat \<Rightarrow> world" where
  "controllerConnect h w ob =
     (let w1 = (if \<not> isConnected w ob
                then w\<lparr>w_controller :=
                         (w_controller w)\<lparr>observers := observers (w_controller w) @ [ob]\<rparr>\<rparr>
                else w)
      in if \<not> isListening (w_controller w1) then initListeners h w1 else w1)"

definition controllerDisconnect :: "host \<Rightarrow> world \<Rightarrow> nat \<Rightarrow> world" where
  "controllerDisconnect h w ob =
     (let w1 = (if ob \<in> set (observers (w_controller w))
                then w\<lparr>w_controller :=
                         (w_controller w)\<lparr>observers := remove1 ob (observers (w_controller w))\<rparr>\<rparr>
                else w)
      in if observers (w_controller w1) = [] \<and> isListening (w_controller w1)
         then removeListeners h w1 else w1)"

subsection \<open>The methods of an observer that reach the controller\<close>

text \<open>The argument of \<open>observe\<close> and \<open>unobserve\<close>: none, a value that is not an
  element, or an element.\<close>

datatype argument = NoArgument | NotAnElement | Element nat

definition setObserver :: "nat \<Rightarrow> observer \<Rightarrow> world \<Rightarrow> world" where
  "setObserver ob obsr w = w\<lparr>w_observer := (w_observer w)(ob := obsr)\<rparr>"

definition hasTarget :: "observer \<Rightarrow> nat \<Rightarrow> bool" where
  "hasTarget obsr target = (target \<in> fst ` set (targets obsr))"

definition observe :: "host \<Rightarrow> nat \<Rightarrow> argument \<Rightarrow> world \<Rightarrow> js_error + world" where
  "observe h ob arg w =
     (case arg of
        NoArgument \<Rightarrow> Inl (TypeError ''1 argument required, but only 0 present.'')
      | NotAnElement \<Rightarrow> Inl (TypeError ''parameter 1 is not of type \"Element\".'')
      | Element target \<Rightarrow>
          (let obsr = w_observer w ob in
           if hasTarget obsr target then Inr w
           else (let w1 = setObserver ob
                            (obsr\<lparr>targets := targets obsr @ [(target, IntersectionObservation)]\<rparr>) w;
                     w2 = (if \<not> isConnected w1 ob then controllerConnect h w1 ob else w1)
                 in Inr (startUpdateCycle h w2))))"

definition disconnect :: "host \<Rightarrow> nat \<Rightarrow> world \<Rightarrow> world" where
  "disconnect h ob w =
     controllerDisconnect h (setObserver ob ((w_observer w ob)\<lparr>targets := []\<rparr>) w) ob"

definition unobserve :: "host \<Rightarrow> nat \<Rightarrow> argument \<Rightarrow> world \<Rightarrow> js_error + world" where
  "unobserve h ob arg w =
     (case arg of
        NoArgument \<Rightarrow> Inl (TypeError ''1 argument required, but only 0 present.'')
      | NotAnElement \<Rightarrow> Inl (TypeError ''parameter 1 is not of type \"Element\".'')
      | Element target \<Rightarrow>
          (let obsr = w_observer w ob;
               w1 = (if hasTarget obsr target
                     then setObserver ob
                            (obsr\<lparr>targets := filter (\<lambda>p. fst p \<noteq> target) (targets obsr)\<rparr>) w
                     else w)
           in if targets (w_observer w1 ob) = [] then Inr (disconnect h ob w1) else Inr w1))"

text \<open>\<open>getRootRect\<close> and \<open>updateObservations\<close>: the observations are visited in the
  order of the registry, each updated in place.\<close>

definition getRootRect :: "host \<Rightarrow> nat \<Rightarrow> observer \<Rightarrow> rect" where
  "getRootRect h ob obsr = applyMargins (h_rootRect h ob) (rootMarginParsed obsr)"

fun updateTargets ::
  "(nat \<Rightarrow> layout) \<Rightarrow> rect \<Rightarrow> (nat \<times> observation) list \<Rightarrow> observer
     \<Rightarrow> bool \<times> (nat \<times> observation) list \<times> observer" where
  "updateTargets lay rootRect [] obsr = (False, [], obsr)"
| "updateTargets lay rootRect ((target, obs) # rest) obsr =
     (case updateIntersection target (lay target) rootRect obsr obs of
        (ch, obs', obsr') \<Rightarrow>
          (case updateTargets lay rootRect rest obsr' of
             (hasChanges, rest', obsr'') \<Rightarrow>
               (ratioChanged ch \<or> targetRectChanged ch \<or> hasChanges,
                (target, obs') # rest', obsr'')))"

definition updateObservations :: "host \<Rightarrow> nat \<Rightarrow> observer \<Rightarrow> bool \<times> observer" where
  "updateObservations h ob obsr =
     (case updateTargets (h_layout h ob) (getRootRect h ob obsr) (targets obsr) obsr of
        (hasChanges, targets', obsr') \<Rightarrow> (hasChanges, obsr'\<lparr>targets := targets'\<rparr>))"

definition notifySubscriber :: "nat \<Rightarrow> world \<Rightarrow> world" where
  "notifySubscriber ob w =
     (case takeRecords (w_observer w ob) of
        (entries, obsr') \<Rightarrow>
          (let w1 = setObserver ob obsr' w in
           if entries \<noteq> [] then w1\<lparr>w_delivered := w_delivered w1 @ [(ob, entries)]\<rparr>
           else w1))"

subsection \<open>The update cycle\<close>

fun updateEach :: "host \<Rightarrow> nat list \<Rightarrow> world \<Rightarrow> bool \<times> world" where
  "updateEach h [] w = (False, w)"
| "updateEach h (ob # rest) w =
     (case updateObservations h ob (w_observer w ob) of
        (changed, obsr') \<Rightarrow>
          (let w1 = setObserver ob obsr' w;
               w2 = (if hasEntries (w_observer w1 ob) then notifySubscriber ob w1 else w1)
           in case updateEach h rest w2 of
                (hasChanges, w3) \<Rightarrow> (changed \<or> hasChanges, w3)))"

definition updateObservers :: "host \<Rightarrow> world \<Rightarrow> bool \<times> world" where
  "updateObservers h w = updateEach h (observers (w_controller w)) w"

definition hasIdleTimeEnded :: "host \<Rightarrow> world \<Rightarrow> bool" where
  "hasIdleTimeEnded h w =
     js_gt (Fin (h_now h - cycleStartTime (w_controller w))) (idleTimeout (w_controller w))"

definition wasCycleStarted :: "world \<Rightarrow> bool" where
  "wasCycleStarted w = (cycleStartTime (w_controller w) \<noteq> - 1)"

definition onCycleEnded :: "world \<Rightarrow> world" where
  "onCycleEnded w =
     (let w1 = w\<lparr>w_controller := (w_controller w)\<lparr>cycleStartTime := - 1\<rparr>\<rparr> in
      if repeatCycle (w_controller w1)
      then w1\<lparr>w_controller := (w_controller w1)\<lparr>cycleStartTime := 0\<rparr>,
              w_repeatTimer := True\<rparr>
      else w1)"

text \<open>\<open>scheduleUpdate(timestamp)\<close>: \<open>Some\<close> timestamp when the host calls it for an
  animation frame, \<open>None\<close> for a call without an argument.\<close>

definition scheduleUpdate :: "host \<Rightarrow> rat option \<Rightarrow> world \<Rightarrow> world" where
  "scheduleUpdate h timestamp w =
     (case timestamp of
        Some t \<Rightarrow>
          (case updateObservers h w of
             (hasChanges, w1) \<Rightarrow>
               (let w2 = w1\<lparr>w_controller := (w_controller w1)\<lparr>isUpdateScheduled := False\<rparr>\<rparr> in
                if \<not> wasCycleStarted w2 then w2
                else if hasChanges then startUpdateCycle h w2
                else if \<not> hasIdleTimeEnded h w2 then requestUpdate w2
                else onCycleEnded w2))
      | None \<Rightarrow> requestUpdate w)"

subsection \<open>The static \<open>idleTimeout\<close> setter of the public class\<close>

definition setIdleTimeoutStatic :: "jsprim \<Rightarrow> world \<Rightarrow> js_error + world" where
  "setIdleTimeoutStatic v w =
     (if typeof v \<noteq> ''number''
      then Inl (TypeError ''type of \"idleTimeout\" value must be a number.'')
      else if js_lt (typeNameToNumber (typeof v)) (Fin 0)
      then Inl (TypeError ''\"idleTimeout\" value must be greater than 0.'')
      else Inr (setIdleTimeout (toNumber v) w))"

subsection \<open>Runs\<close>

text \<open>The world before anything is observed: the controller as the public class
  creates it, and observers with nothing registered.\<close>

definition initialWorld :: "(nat \<Rightarrow> observer) \<Rightarrow> world" where
  "initialWorld obs =
     \<lparr>w_controller = newController (Fin 50) False, w_observer = obs, w_frames = 0,
      w_listeners = [], w_repeatTimer = False, w_mutationsObserved = False,
      w_delivered = []\<rparr>"

text \<open>A call from outside: a method of an observer, or an animation frame.  A call
  that throws leaves the world as it was.\<close>

datatype operation =
  Observe nat argument | Unobserve nat argument | Disconnect nat | Frame rat

fun perform :: "host \<Rightarrow> operation \<Rightarrow> world \<Rightarrow> world" where
  "perform h (Observe ob arg) w = (case observe h ob arg w of Inl e \<Rightarrow> w | Inr w' \<Rightarrow> w')"
| "perform h (Unobserve ob arg) w = (case unobserve h ob arg w of Inl e \<Rightarrow> w | Inr w' \<Rightarrow> w')"
| "perform h (Disconnect ob) w = disconnect h ob w"
| "perform h (Frame t) w = scheduleUpdate h (Some t) w"

fun run :: "(host \<times> operation) list \<Rightarrow> world \<Rightarrow> world" where
  "run [] w = w"
| "run ((h, op) # rest) w = run rest (perform h op w)"

section \<open>Notions of the specification\<close>




text \<open>The invariant kept by the methods of the observers: the controller's list names
  no observer twice, and every observer it names has a target registered.\<close>

definition connectedInvariant :: "world \<Rightarrow> bool" where
  "connectedInvariant w =
     (distinct (observers (w_controller w)) \<and>
      (\<forall>ob \<in> set (observers (w_controller w)). targets (w_observer w ob) \<noteq> []))"

section \<open>Inputs used in the examples\<close>

text \<open>A root rectangle of ten by ten at the origin, a target attached directly below
  the root, an observer with no margins, and an observation that last saw its target
  half inside the root.\<close>

definition viewport :: rect where
  "viewport = createRectangle 0 0 10 10"

definition attached :: "rect \<Rightarrow> layout" where
  "attached r = \<lparr>l_rect = r, l_detached = False, l_parents = RootReached, l_now = 0\<rparr>"

definition plainObserver :: "rat list \<Rightarrow> observer" where
  "plainObserver ths =
     \<lparr>thresholds = ths, rootMargin = ''0px 0px 0px 0px'',
      rootMarginParsed = replicate 4 \<lparr>m_value = 0, m_pixels = True\<rparr>,
      targets = [], quedEntries = []\<rparr>"

definition halfVisible :: observation where
  "halfVisible =
     \<lparr>prevTargetRect = createRectangle 5 0 10 10, prevThreshold = 1, prevRatio = Fin (1 / 2)\<rparr>"

text \<open>A host whose clock reads \<open>t\<close>, with mutation observers, the root rectangle
  above and every target half inside it.\<close>

definition hostAt :: "rat \<Rightarrow> host" where
  "hostAt t = \<lparr>h_mutationsSupported = True, h_now = t, h_rootRect = (\<lambda>ob. viewport),
     h_layout = (\<lambda>ob target. attached (createRectangle 5 0 10 10))\<rparr>"

text \<open>The world after one observer has been given the target 7 and the first animation
  frame has measured it, both at time 100: the cycle started then is running.\<close>

definition measuredWorld :: world where
  "measuredWorld =
     run [(hostAt 100, Observe 0 (Element 7)), (hostAt 100, Frame 100)]
       (initialWorld (\<lambda>ob. plainObserver [0]))"

text \<open>The world after one observer has been given the target 7 and its
  \<open>updateObservations\<close> has been called, without \<open>notifySubscriber\<close>: the entry of the
  first measurement is in the queue.\<close>

definition queuedWorld :: world where
  "queuedWorld =
     (let w1 = perform (hostAt 100) (Observe 0 (Element 7)) (initialWorld (\<lambda>ob. plainObserver [0]))
      in setObserver 0 (snd (updateObservations (hostAt 100) 0 (w_observer w1 0))) w1)"

text \<open>Two observers, one frame, and the first observer giving up its only target.\<close>

definition sampleRun :: "(host \<times> operation) list" where
  "sampleRun =
     [(hostAt 100, Observe 0 (Element 7)), (hostAt 110, Observe 1 (Element 8)),
      (hostAt 120, Frame 120), (hostAt 130, Unobserve 0 (Element 7))]"

text \<open>\<open>new IntersectionObserver(callback, {threshold: [0.5, 1e-7]})\<close>.\<close>

definition tinyThresholds :: constructor_args where
  "tinyThresholds =
     \<lparr>a_callbackIsFunction = True, a_optionsIsObject = True, a_rootGiven = False,
      a_rootIsElement = False,
      a_threshold = Many [PNum (Fin (1 / 2)), PNum (Fin (1 / 10000000))],
      a_rootMargin = None\<rparr>"

section \<open>The threshold scan and the stored thresholds\<close>

lemma thresholdScan_ge: "index \<le> thresholdScan ths ratio index"
proof (induction ths ratio index rule: thresholdScan.induct)
  case (1 ths ratio index)
  show ?case
  proof (cases "index < length ths \<and> js_le (Fin (ths ! index)) ratio")
    case True
    with 1 show ?thesis by (subst thresholdScan.simps) simp
  next
    case False
    then show ?thesis by (subst thresholdScan.simps) auto
  qed
qed

lemma thresholdScan_le_length:
  "index \<le> length ths \<Longrightarrow> thresholdScan ths ratio index \<le> length ths"
proof (induction ths ratio index rule: thresholdScan.induct)
  case (1 ths ratio index)
  show ?case
  proof (cases "index < length ths \<and> js_le (Fin (ths ! index)) ratio")
    case True
    with 1 show ?thesis by (subst thresholdScan.simps) simp
  next
    case False
    with 1 show ?thesis by (subst thresholdScan.simps) simp
  qed
qed

lemma js_le_trans: "js_le a b \<Longrightarrow> js_le b c \<Longrightarrow> js_le a c"
  by (cases a; cases b; cases c) auto

lemma thresholdScan_mono:
  "js_le r1 r2 \<Longrightarrow> thresholdScan ths r1 index \<le> thresholdScan ths r2 index"
proof (induction ths r1 index rule: thresholdScan.induct)
  case (1 ths r1 index)
  show ?case
  proof (cases "index < length ths \<and> js_le (Fin (ths ! index)) r1")
    case True
    then have "js_le (Fin (ths ! index)) r2" using "1.prems" js_le_trans by blast
    with True 1 show ?thesis
      by (subst thresholdScan.simps, subst (2) thresholdScan.simps) simp
  next
    case False
    then have "thresholdScan ths r1 index = index" by (subst thresholdScan.simps) auto
    then show ?thesis by (simp add: thresholdScan_ge)
  qed
qed

text \<open>The scan returns the length of the longest prefix (from index on) of thresholds \<le> ratio\<close>
lemma thresholdScan_takeWhile:
  "index \<le> length ths \<Longrightarrow>
   thresholdScan ths ratio index = index + length (takeWhile (\<lambda>t. js_le (Fin t) ratio) (drop index ths))"
proof (induction ths ratio index rule: thresholdScan.induct)
  case (1 ths ratio index)
  show ?case
  proof (cases "index < length ths")
    case True
    then have d: "drop index ths = ths ! index # drop (Suc index) ths"
      by (simp add: Cons_nth_drop_Suc)
    show ?thesis
    proof (cases "js_le (Fin (ths ! index)) ratio")
      case t: True
      with True 1 show ?thesis by (subst thresholdScan.simps) (simp add: d)
    next
      case False
      with True show ?thesis by (subst thresholdScan.simps) (simp add: d)
    qed
  next
    case False
    with 1 show ?thesis by (subst thresholdScan.simps) simp
  qed
qed

lemma takeWhile_sorted_count:
  "sorted ths \<Longrightarrow> length (takeWhile (\<lambda>t. js_le (Fin t) ratio) ths) = length (filter (\<lambda>t. js_le (Fin t) ratio) ths)"
proof (induction ths)
  case Nil
  then show ?case by simp
next
  case (Cons a ths)
  show ?case
  proof (cases "js_le (Fin a) ratio")
    case True
    with Cons show ?thesis by simp
  next
    case False
    have "\<not> js_le (Fin t) ratio" if "t \<in> set ths" for t
    proof
      assume "js_le (Fin t) ratio"
      moreover have "a \<le> t" using Cons.prems that by simp
      then have "js_le (Fin a) (Fin t)" by simp
      ultimately have "js_le (Fin a) ratio" using js_le_trans by blast
      with False show False by simp
    qed
    then have "filter (\<lambda>t. js_le (Fin t) ratio) ths = []" by (simp add: filter_empty_conv)
    with False show ?thesis by simp
  qed
qed

lemma getThresholdGreaterThan_properties:
  "(js_le r1 r2 \<longrightarrow> getThresholdGreaterThan obsr r1 \<le> getThresholdGreaterThan obsr r2) \<and>
   getThresholdGreaterThan obsr r \<le> length (thresholds obsr) \<and>
   getThresholdGreaterThan obsr r =
     length (takeWhile (\<lambda>t. js_le (Fin t) r) (thresholds obsr)) \<and>
   (sorted (thresholds obsr) \<longrightarrow>
      getThresholdGreaterThan obsr r =
        length (filter (\<lambda>t. js_le (Fin t) r) (thresholds obsr)))"
  using thresholdScan_mono [of r1 r2 "thresholds obsr" 0]
        thresholdScan_le_length [of 0 "thresholds obsr" r]
        thresholdScan_takeWhile [of 0 "thresholds obsr" r]
        takeWhile_sorted_count [of "thresholds obsr" r]
  by (simp add: getThresholdGreaterThan_def)

lemma defaultSort_by_string:
  "sorted (map numberToString (defaultSort xs)) \<and> set (defaultSort xs) = set xs"
  by (simp add: defaultSort_def)

lemma replicate4: "replicate 4 x = [x, x, x, x]"
  by (simp add: numeral_eq_Suc)

lemma sort_tiny: "defaultSort [1 / 2, 1 / 10000000] = [1 / 2, 1 / 10000000]"
  unfolding defaultSort_def by code_simp

lemma strings_tiny:
  "numberToString (1 / 2) = ''0.5'' \<and> numberToString (1 / 10000000) = ''1e-7''"
  by code_simp

lemma tiny_observer:
  "newObserver tinyThresholds =
     Inr ((plainObserver [1 / 2, 1 / 10000000])\<lparr>rootMargin := ''0px 0px 0px 0px''\<rparr>)"
proof -
  have "splitSpaces ''0px'' = [''0px'']"
    by (simp add: splitSpaces_def isSpace_def)
  moreover have "parseToken ''0px'' = Inr \<lparr>m_value = 0, m_pixels = True\<rparr>"
  proof -
    have "matchToken ''0px'' = Some (''0'', ''px'')"
      by (simp add: matchToken_def matchesNumber_def isDigit_def)
    moreover have "parseFloat ''0'' = Fin 0"
      by (simp add: parseFloat_def isDigit_def digitsValue_def)
    ultimately show ?thesis by (simp add: parseToken_def)
  qed
  ultimately have "parseMargins None =
      Inr (''0px 0px 0px 0px'', replicate 4 \<lparr>m_value = 0, m_pixels = True\<rparr>)"
    by (simp add: parseMargins_def tokenOr_def replicate4)
  moreover have "checkThresholds [PNum (Fin (1 / 2)), PNum (Fin (1 / 10000000))] =
      Inr [1 / 2, 1 / 10000000]"
    by simp
  then have "parseThresholds (Many [PNum (Fin (1 / 2)), PNum (Fin (1 / 10000000))]) =
      Inr [1 / 2, 1 / 10000000]"
    by (simp add: parseThresholds_def sort_tiny del: checkThresholds.simps)
  ultimately show ?thesis
    by (simp add: newObserver_def tinyThresholds_def plainObserver_def)
qed

text \<open>
  Claim C1.  The code does not keep it: \<open>parseThresholds\<close> ends with \<open>sort()\<close> and no
  comparator, which orders numbers by their strings.  For the thresholds \<open>[0.5, 1e-7]\<close>
  the strings are \<open>0.5\<close> and \<open>1e-7\<close>, and the observer stores \<open>[0.5, 1e-7]\<close>, which is not
  ascending.
\<close>

theorem thresholds_not_ascending:
  "(case newObserver tinyThresholds of
      Inl e \<Rightarrow> False
    | Inr obsr \<Rightarrow> thresholds obsr = [1 / 2, 1 / 10000000] \<and> \<not> sorted (thresholds obsr))"
proof -
  have "\<not> (1 / 2 :: rat) \<le> 1 / 10000000" by simp
  then have "\<not> sorted [1 / 2, 1 / 10000000 :: rat]" unfolding sorted2 by blast
  moreover have "thresholds ((plainObserver [1 / 2, 1 / 10000000])\<lparr>rootMargin := ''0px 0px 0px 0px''\<rparr>)
      = [1 / 2, 1 / 10000000]"
    by (simp add: plainObserver_def)
  ultimately show ?thesis unfolding tiny_observer by (simp only: sum.case simp_thms)
qed

text \<open>
  Claim C7.  The scan is monotonic and stays within the length of the list
  (\<open>getThresholdGreaterThan_properties\<close>), and it counts the thresholds up to the ratio
  when the stored list is ascending.  On the observer built from \<open>[0.5, 1e-7]\<close> the list
  is not ascending: for the ratio 0.1 the scan stops at index 0, and one threshold is
  at most 0.1.
\<close>

theorem scan_is_not_count:
  "(case newObserver tinyThresholds of
      Inl e \<Rightarrow> False
    | Inr obsr \<Rightarrow>
        getThresholdGreaterThan obsr (Fin (1 / 10)) = 0 \<and>
        length (filter (\<lambda>t. js_le (Fin t) (Fin (1 / 10))) (thresholds obsr)) = 1)"
  by (simp add: tiny_observer plainObserver_def getThresholdGreaterThan_def thresholdScan.simps)

section \<open>Intersection data\<close>

lemma consistent_createRectangle: "rect_consistent (createRectangle l t w h)"
  by (simp add: rect_consistent_def createRectangle_def)

lemma computeIntersection_shrinks:
  assumes "rect_consistent a"
  shows "rect_consistent (computeIntersection a b)"
    and "r_width (computeIntersection a b) \<le> r_width a"
    and "r_height (computeIntersection a b) \<le> r_height a"
  using assms
  by (auto simp: rect_consistent_def computeIntersection_def createRectangle_def Let_def)

lemma getIntersection_shrinks:
  "rect_consistent a \<Longrightarrow>
     r_width (getIntersection ps c a) \<le> r_width a \<and> r_height (getIntersection ps c a) \<le> r_height a"
proof (induction ps arbitrary: a)
  case RootReached
  then show ?case by (simp add: computeIntersection_shrinks)
next
  case (Clipping p ps)
  have c: "rect_consistent (computeIntersection a p)"
    using Clipping.prems by (rule computeIntersection_shrinks)
  from Clipping.IH [OF c] computeIntersection_shrinks(2,3) [OF Clipping.prems, of p]
  show ?case by force
next
  case (Visible ps)
  then show ?case by simp
qed

lemma js_or_zero_not_NaN: "js_or_zero x \<noteq> NaN"
  by (simp add: js_or_zero_def)

lemma ratio_cases:
  "i_ratio (getIntersectionData lay c t) =
     (if getArea t \<noteq> 0 then Fin (getArea (i_rect (getIntersectionData lay c t)) / getArea t)
      else if getArea (i_rect (getIntersectionData lay c t)) = 0 then Fin 0
      else if 0 < getArea (i_rect (getIntersectionData lay c t)) then PInf else NInf)"
  by (simp add: getIntersectionData_def Let_def js_or_zero_def js_div_def)

lemma exists_zero_area:
  assumes "rect_consistent t" "getArea t = 0" "i_exists (getIntersectionData lay c t)"
  shows "getArea (i_rect (getIntersectionData lay c t)) = 0"
proof -
  from assms(3) have nd: "\<not> l_detached lay" by (simp add: getIntersectionData_def Let_def)
  let ?i = "getIntersection (l_parents lay) c t"
  from nd have r: "i_rect (getIntersectionData lay c t) = ?i" by (simp add: getIntersectionData_def Let_def)
  from assms(3) nd have pos: "0 \<le> r_width ?i" "0 \<le> r_height ?i" by (simp_all add: getIntersectionData_def Let_def)
  from getIntersection_shrinks [OF assms(1), of "l_parents lay" c]
  have le: "r_width ?i \<le> r_width t" "r_height ?i \<le> r_height t" by simp_all
  from assms(2) have "r_width t = 0 \<or> r_height t = 0" by (simp add: getArea_def)
  with pos le have "r_width ?i = 0 \<or> r_height ?i = 0" by auto
  then show ?thesis by (auto simp: r getArea_def)
qed

lemma updateIntersection_caches:
  "updateIntersection target lay rootRect obsr obs = (ch, obs', obsr') \<Longrightarrow>
   prevRatio obs' = i_ratio (getIntersectionData lay rootRect (l_rect lay)) \<and>
   prevTargetRect obs' = l_rect lay \<and>
   prevThreshold obs' = newThreshold obsr (l_rect lay) (getIntersectionData lay rootRect (l_rect lay))"
  by (auto simp: updateIntersection_def Let_def)

text \<open>
  Claim C3, as the code has it.  The ratio computed by an update (and cached as the
  previous ratio) is never NaN.  For a target of zero area it is 0 whenever the
  intersection rectangle has zero area too, which is the case whenever the
  intersection exists and the target's rectangle is consistent.  For a target of
  non-zero area it is the area of the intersection rectangle divided by the area of
  the target's rectangle.
\<close>

theorem zero_area_ratio:
  "prevRatio (fst (snd (updateIntersection target lay rootRect obsr obs))) =
     i_ratio (getIntersectionData lay rootRect (l_rect lay)) \<and>
   i_ratio (getIntersectionData lay rootRect (l_rect lay)) \<noteq> NaN \<and>
   (getArea (l_rect lay) = 0 \<and> getArea (i_rect (getIntersectionData lay rootRect (l_rect lay))) = 0 \<longrightarrow>
      i_ratio (getIntersectionData lay rootRect (l_rect lay)) = Fin 0) \<and>
   (getArea (l_rect lay) = 0 \<and> rect_consistent (l_rect lay) \<and>
      i_exists (getIntersectionData lay rootRect (l_rect lay)) \<longrightarrow>
      i_ratio (getIntersectionData lay rootRect (l_rect lay)) = Fin 0) \<and>
   (getArea (l_rect lay) \<noteq> 0 \<longrightarrow>
      i_ratio (getIntersectionData lay rootRect (l_rect lay)) =
        Fin (getArea (i_rect (getIntersectionData lay rootRect (l_rect lay))) / getArea (l_rect lay)))"
proof -
  let ?d = "getIntersectionData lay rootRect (l_rect lay)"
  have 0: "prevRatio (fst (snd (updateIntersection target lay rootRect obsr obs))) = i_ratio ?d"
    by (simp add: updateIntersection_def Let_def)
  have 1: "i_ratio ?d \<noteq> NaN"
    by (simp add: getIntersectionData_def Let_def js_or_zero_not_NaN)
  show ?thesis
    using 0 1 ratio_cases [of lay rootRect "l_rect lay"] exists_zero_area [of "l_rect lay" lay rootRect]
    by auto
qed

lemmas eval_geometry = getIntersectionData_def Let_def js_or_zero_def js_div_def getArea_def
  createRectangle_def computeIntersection_def attached_def viewport_def rect_consistent_def
  emptyRect_def isEmpty_def isEqual_def

text \<open>A target of zero width inside the root, and a target half inside the root.\<close>

theorem zero_area_ratio_witness:
  "getArea (l_rect (attached (createRectangle 1 1 0 5))) = 0 \<and>
   rect_consistent (l_rect (attached (createRectangle 1 1 0 5))) \<and>
   i_exists (getIntersectionData (attached (createRectangle 1 1 0 5)) viewport (createRectangle 1 1 0 5)) \<and>
   getArea (i_rect (getIntersectionData (attached (createRectangle 1 1 0 5)) viewport (createRectangle 1 1 0 5))) = 0 \<and>
   i_ratio (getIntersectionData (attached (createRectangle 1 1 0 5)) viewport (createRectangle 1 1 0 5)) = Fin 0 \<and>
   getArea (l_rect (attached (createRectangle 5 0 10 10))) \<noteq> 0 \<and>
   i_ratio (getIntersectionData (attached (createRectangle 5 0 10 10)) viewport (createRectangle 5 0 10 10)) = Fin (1 / 2)"
  using zero_area_ratio [of 0 "attached (createRectangle 1 1 0 5)" viewport "plainObserver [0]" IntersectionObservation]
        zero_area_ratio [of 0 "attached (createRectangle 5 0 10 10)" viewport "plainObserver [0]" IntersectionObservation]
  by (simp add: eval_geometry)

text \<open>
  The claim as stated fails: a target of zero width and height 10 that lies to the
  right of the root has zero area, its intersection rectangle has width \<open>-2\<close> and
  height 10, and the ratio is \<open>-20 / 0\<close>, negative infinity, which \<open>|| 0\<close> keeps.
\<close>

theorem zero_area_ratio_counterexample:
  "getArea (l_rect (attached (createRectangle 12 0 0 10))) = 0 \<and>
   i_ratio (getIntersectionData (attached (createRectangle 12 0 0 10)) viewport
              (l_rect (attached (createRectangle 12 0 0 10)))) = NInf \<and>
   prevRatio (fst (snd (updateIntersection 0 (attached (createRectangle 12 0 0 10)) viewport
                          (plainObserver [0]) IntersectionObservation))) = NInf"
  by (simp add: updateIntersection_def eval_geometry)

lemma newThreshold_over_thresholds:
  "newThreshold obsr targetRect isec =
     (if i_exists isec \<and> \<not> isEmpty targetRect
      then length (takeWhile (\<lambda>t. js_le (Fin t) (i_ratio isec)) (thresholds obsr))
      else if i_exists isec then 1 else 0)"
  using thresholdScan_takeWhile [of 0 "thresholds obsr" "i_ratio isec"]
  by (simp add: newThreshold_def getThresholdGreaterThan_def)

text \<open>
  Claim C5.  The threshold index an update computes and caches is, when the intersection
  exists and the target's rectangle is not empty, the number of leading stored
  thresholds that are at most the ratio (the number of all such thresholds when the
  stored list is ascending), and otherwise 1 or 0 for whether the intersection exists.
  The update queues an entry on the owning observer exactly when that index differs
  from the one cached before, and then it queues that one entry, built from the target,
  its rectangle, the intersection (the empty rectangle and ratio 0 if none exists), the
  root rectangle and the time; otherwise the observer is left as it was, whatever became
  of the ratio and the rectangle.
\<close>

theorem entry_iff_threshold_crossed:
  "(case updateIntersection target lay rootRect obsr obs of
      (ch, obs', obsr') \<Rightarrow>
        prevThreshold obs' =
          (if i_exists (getIntersectionData lay rootRect (l_rect lay)) \<and> \<not> isEmpty (l_rect lay)
           then length (takeWhile
                  (\<lambda>t. js_le (Fin t) (i_ratio (getIntersectionData lay rootRect (l_rect lay))))
                  (thresholds obsr))
           else if i_exists (getIntersectionData lay rootRect (l_rect lay)) then 1 else 0) \<and>
        (sorted (thresholds obsr) \<and> i_exists (getIntersectionData lay rootRect (l_rect lay))
           \<and> \<not> isEmpty (l_rect lay) \<longrightarrow>
         prevThreshold obs' =
           length (filter
                  (\<lambda>t. js_le (Fin t) (i_ratio (getIntersectionData lay rootRect (l_rect lay))))
                  (thresholds obsr))) \<and>
        thresholdChanged ch = (prevThreshold obs' \<noteq> prevThreshold obs) \<and>
        (quedEntries obsr' \<noteq> quedEntries obsr) = (prevThreshold obs' \<noteq> prevThreshold obs) \<and>
        obsr' =
          (if prevThreshold obs' \<noteq> prevThreshold obs
           then obsr\<lparr>quedEntries := quedEntries obsr @
                  [\<lparr>e_boundingClientRect = l_rect lay,
                    e_intersectionRatio =
                      (if i_exists (getIntersectionData lay rootRect (l_rect lay))
                       then i_ratio (getIntersectionData lay rootRect (l_rect lay)) else Fin 0),
                    e_intersectionRect =
                      (if i_exists (getIntersectionData lay rootRect (l_rect lay))
                       then i_rect (getIntersectionData lay rootRect (l_rect lay)) else emptyRect),
                    e_rootBounds = rootRect, e_target = target, e_time = l_now lay\<rparr>]\<rparr>
           else obsr))"
proof -
  let ?d = "getIntersectionData lay rootRect (l_rect lay)"
  let ?b = "if i_exists ?d \<and> \<not> isEmpty (l_rect lay)
            then length (takeWhile (\<lambda>t. js_le (Fin t) (i_ratio ?d)) (thresholds obsr))
            else if i_exists ?d then 1 else 0"
  have b: "newThreshold obsr (l_rect lay) ?d = ?b"
    by (rule newThreshold_over_thresholds)
  have c: "sorted (thresholds obsr) \<Longrightarrow>
      length (takeWhile (\<lambda>t. js_le (Fin t) (i_ratio ?d)) (thresholds obsr)) =
      length (filter (\<lambda>t. js_le (Fin t) (i_ratio ?d)) (thresholds obsr))"
    by (rule takeWhile_sorted_count)
  obtain ch obs' obsr' where u: "updateIntersection target lay rootRect obsr obs = (ch, obs', obsr')"
    by (cases "updateIntersection target lay rootRect obsr obs")
  from u have p: "prevThreshold obs' = newThreshold obsr (l_rect lay) ?d"
    by (auto simp: updateIntersection_def Let_def)
  from u have t: "thresholdChanged ch = (newThreshold obsr (l_rect lay) ?d \<noteq> prevThreshold obs)"
    by (auto simp: updateIntersection_def Let_def)
  from u have q: "obsr' =
      (if newThreshold obsr (l_rect lay) ?d \<noteq> prevThreshold obs
       then obsr\<lparr>quedEntries := quedEntries obsr @
              [\<lparr>e_boundingClientRect = l_rect lay,
                e_intersectionRatio = (if i_exists ?d then i_ratio ?d else Fin 0),
                e_intersectionRect = (if i_exists ?d then i_rect ?d else emptyRect),
                e_rootBounds = rootRect, e_target = target, e_time = l_now lay\<rparr>]\<rparr>
       else obsr)"
    by (auto simp: updateIntersection_def Let_def queueEntry_def IntersectionObserverEntry_def)
  have p': "prevThreshold obs' = ?b" using p b by simp
  have s: "sorted (thresholds obsr) \<and> i_exists ?d \<and> \<not> isEmpty (l_rect lay) \<longrightarrow>
      prevThreshold obs' = length (filter (\<lambda>t. js_le (Fin t) (i_ratio ?d)) (thresholds obsr))"
    using p' c by simp
  have t': "thresholdChanged ch = (prevThreshold obs' \<noteq> prevThreshold obs)"
    using t p by simp
  have q': "obsr' =
      (if prevThreshold obs' \<noteq> prevThreshold obs
       then obsr\<lparr>quedEntries := quedEntries obsr @
              [\<lparr>e_boundingClientRect = l_rect lay,
                e_intersectionRatio = (if i_exists ?d then i_ratio ?d else Fin 0),
                e_intersectionRect = (if i_exists ?d then i_rect ?d else emptyRect),
                e_rootBounds = rootRect, e_target = target, e_time = l_now lay\<rparr>]\<rparr>
       else obsr)"
    using q p by simp
  have n: "(quedEntries obsr' \<noteq> quedEntries obsr) = (prevThreshold obs' \<noteq> prevThreshold obs)"
    by (subst q') simp
  show ?thesis
    unfolding u using p' s t' n q' by (simp only: prod.case simp_thms)
qed

lemmas eval_update = updateIntersection_def newThreshold_def getThresholdGreaterThan_def
  queueEntry_def IntersectionObserverEntry_def IntersectionObservation_def plainObserver_def
  halfVisible_def js_strict_eq_def thresholdScan.simps

text \<open>Thresholds 0, 1/2 and 1.  A target seen a quarter inside (index 1) that is now
  four fifths inside has crossed 1/2: the index is 2 and one entry is queued, though the
  intersection existed before and after.  A target seen half inside (index 2) that is
  now four fifths inside has crossed nothing, and nothing is queued.\<close>

theorem entry_iff_threshold_crossed_witness:
  "sorted (thresholds (plainObserver [0, 1 / 2, 1])) \<and>
   (case updateIntersection 0 (attached (createRectangle 2 0 10 10)) viewport
           (plainObserver [0, 1 / 2, 1])
           \<lparr>prevTargetRect = createRectangle (15 / 2) 0 10 10, prevThreshold = 1,
             prevRatio = Fin (1 / 4)\<rparr> of
      (ch, obs', obsr') \<Rightarrow>
        thresholdChanged ch \<and> prevThreshold obs' = 2 \<and> prevRatio obs' = Fin (4 / 5) \<and>
        map e_intersectionRatio (quedEntries obsr') = [Fin (4 / 5)]) \<and>
   (case updateIntersection 0 (attached (createRectangle 2 0 10 10)) viewport
           (plainObserver [0, 1 / 2, 1])
           \<lparr>prevTargetRect = createRectangle 5 0 10 10, prevThreshold = 2,
             prevRatio = Fin (1 / 2)\<rparr> of
      (ch, obs', obsr') \<Rightarrow>
        ratioChanged ch \<and> targetRectChanged ch \<and> \<not> thresholdChanged ch \<and>
        prevThreshold obs' = 2 \<and> prevRatio obs' = Fin (4 / 5) \<and>
        obsr' = plainObserver [0, 1 / 2, 1])"
  using entry_iff_threshold_crossed [where target = 0 and lay = "attached (createRectangle 2 0 10 10)"
          and rootRect = viewport and obsr = "plainObserver [0, 1 / 2, 1]"
          and obs = "\<lparr>prevTargetRect = createRectangle (15 / 2) 0 10 10, prevThreshold = 1,
             prevRatio = Fin (1 / 4)\<rparr>"]
        entry_iff_threshold_crossed [where target = 0 and lay = "attached (createRectangle 2 0 10 10)"
          and rootRect = viewport and obsr = "plainObserver [0, 1 / 2, 1]"
          and obs = "\<lparr>prevTargetRect = createRectangle 5 0 10 10, prevThreshold = 2,
             prevRatio = Fin (1 / 2)\<rparr>"]
  by (simp add: eval_update eval_geometry)


section \<open>Margins\<close>











subsection \<open>Splitting a trimmed string\<close>




subsection \<open>The parsed tokens\<close>





subsection \<open>Decimal tokens\<close>





















section \<open>The idle timeout\<close>

text \<open>
  Claim C9.  The code does not keep it: the static setter tests \<open>typeof value < 0\<close>,
  which compares the string \<open>number\<close> with 0 and is never true, so \<open>-1\<close> is accepted and
  stored.
\<close>

theorem negative_idleTimeout_accepted:
  "(case setIdleTimeoutStatic (PNum (Fin (- 1))) (initialWorld (\<lambda>ob. plainObserver [0])) of
      Inl e \<Rightarrow> False
    | Inr w \<Rightarrow> idleTimeout (w_controller w) = Fin (- 1) \<and>
               \<not> js_le (Fin 0) (idleTimeout (w_controller w)))"
  by (simp add: setIdleTimeoutStatic_def typeNameToNumber_def setIdleTimeout_def initialWorld_def)

section \<open>The update cycle\<close>

lemma updateTargets_targets:
  "updateTargets lay rootRect ts obsr = (ch, ts', obsr') \<Longrightarrow>
   map fst ts' = map fst ts \<and> targets obsr' = targets obsr \<and> thresholds obsr' = thresholds obsr
   \<and> rootMarginParsed obsr' = rootMarginParsed obsr"
proof (induction ts arbitrary: obsr ch ts' obsr')
  case Nil
  then show ?case by simp
next
  case (Cons a ts)
  obtain target obs where a: "a = (target, obs)" by (cases a)
  obtain c1 o1 r1 where u: "updateIntersection target (lay target) rootRect obsr obs = (c1, o1, r1)"
    by (cases "updateIntersection target (lay target) rootRect obsr obs")
  obtain c2 t2 r2 where v: "updateTargets lay rootRect ts r1 = (c2, t2, r2)"
    by (cases "updateTargets lay rootRect ts r1")
  from u have r1: "targets r1 = targets obsr \<and> thresholds r1 = thresholds obsr \<and> rootMarginParsed r1 = rootMarginParsed obsr"
    by (auto simp: updateIntersection_def Let_def queueEntry_def split: if_splits)
  from Cons.prems a u v have e: "ts' = (target, o1) # t2" "obsr' = r2" by simp_all
  from Cons.IH [OF v] r1 e a show ?case by simp
qed

lemma updateObservations_targets:
  "updateObservations h ob obsr = (ch, obsr') \<Longrightarrow> map fst (targets obsr') = map fst (targets obsr)"
  by (auto simp: updateObservations_def split: prod.splits dest: updateTargets_targets)

lemma notifySubscriber_frame:
  "w_controller (notifySubscriber ob w) = w_controller w \<and>
   w_frames (notifySubscriber ob w) = w_frames w \<and>
   w_repeatTimer (notifySubscriber ob w) = w_repeatTimer w \<and>
   (\<forall>x. targets (w_observer (notifySubscriber ob w) x) = targets (w_observer w x))"
  by (simp add: notifySubscriber_def takeRecords_def setObserver_def Let_def)

lemma updateEach_frame:
  "updateEach h obs w = (ch, w') \<Longrightarrow>
   w_controller w' = w_controller w \<and> w_frames w' = w_frames w \<and>
   w_repeatTimer w' = w_repeatTimer w \<and>
   (\<forall>x. map fst (targets (w_observer w' x)) = map fst (targets (w_observer w x)))"
proof (induction obs arbitrary: w ch w')
  case Nil
  then show ?case by simp
next
  case (Cons ob obs)
  obtain c1 o1 where u: "updateObservations h ob (w_observer w ob) = (c1, o1)"
    by (cases "updateObservations h ob (w_observer w ob)")
  let ?w1 = "setObserver ob o1 w"
  let ?w2 = "if hasEntries (w_observer ?w1 ob) then notifySubscriber ob ?w1 else ?w1"
  obtain c3 w3 where v: "updateEach h obs ?w2 = (c3, w3)" by (cases "updateEach h obs ?w2")
  from Cons.prems u v have e: "w' = w3" by (simp add: Let_def)
  have s1: "w_controller ?w1 = w_controller w \<and> w_frames ?w1 = w_frames w \<and>
     w_repeatTimer ?w1 = w_repeatTimer w \<and>
     (\<forall>x. map fst (targets (w_observer ?w1 x)) = map fst (targets (w_observer w x)))"
    using updateObservations_targets [OF u] by (simp add: setObserver_def)
  have s2: "w_controller ?w2 = w_controller ?w1 \<and> w_frames ?w2 = w_frames ?w1 \<and>
     w_repeatTimer ?w2 = w_repeatTimer ?w1 \<and>
     (\<forall>x. targets (w_observer ?w2 x) = targets (w_observer ?w1 x))"
    using notifySubscriber_frame [of ob ?w1] by simp
  from Cons.IH [OF v] have s3: "w_controller w3 = w_controller ?w2 \<and> w_frames w3 = w_frames ?w2 \<and>
     w_repeatTimer w3 = w_repeatTimer ?w2 \<and>
     (\<forall>x. map fst (targets (w_observer w3 x)) = map fst (targets (w_observer ?w2 x)))" .
  show ?case unfolding e using s1 s2 s3 by metis
qed

lemma updateObservers_frame:
  "updateObservers h w = (ch, w') \<Longrightarrow>
   w_controller w' = w_controller w \<and> w_frames w' = w_frames w \<and>
   w_repeatTimer w' = w_repeatTimer w \<and>
   (\<forall>x. map fst (targets (w_observer w' x)) = map fst (targets (w_observer w x)))"
  unfolding updateObservers_def by (rule updateEach_frame)

lemmas eval_world = initialWorld_def newController_def hostAt_def observe_def unobserve_def
  disconnect_def hasTarget_def setObserver_def isConnected_def controllerConnect_def
  controllerDisconnect_def initListeners_def removeListeners_def addHoverListener_def
  removeHoverListener_def startUpdateCycle_def requestUpdate_def scheduleUpdate_def
  updateObservers_def updateObservations_def getRootRect_def applyMargins_def marginPixels_def
  notifySubscriber_def takeRecords_def hasEntries_def wasCycleStarted_def hasIdleTimeEnded_def
  onCycleEnded_def replicate4

lemma hostAt_now: "h_now (hostAt t) = t"
  by (simp add: hostAt_def)

lemma measured_controller:
  "w_controller measuredWorld =
     \<lparr>idleTimeout = Fin 50, trackHovers = False, cycleStartTime = 100,
      isUpdateScheduled = True, repeatCycle = False, hoverInitiated = False,
      mutationsObserver = True, isListening = True, observers = [0]\<rparr>"
  by (simp add: measuredWorld_def eval_world eval_update eval_geometry)

lemma measured_observer:
  "w_observer measuredWorld 0 = (plainObserver [0])\<lparr>targets := [(7, halfVisible)]\<rparr>"
  by (simp add: measuredWorld_def eval_world eval_update eval_geometry)

lemma measured_frames: "w_frames measuredWorld = 2"
  by (simp add: measuredWorld_def eval_world eval_update eval_geometry)

lemma measured_steady: "fst (updateObservers (hostAt t) measuredWorld) = False"
  by (simp add: measured_controller measured_observer eval_world eval_update eval_geometry)

text \<open>
  Claim C4, as the code has it.  In a frame-driven tick of a running cycle in which no
  connected observer reported a change, the controller requests exactly one more frame
  unless the time elapsed since \<open>cycleStartTime\<close> is greater than \<open>idleTimeout\<close>, and
  otherwise ends the cycle (the start time becomes \<open>-1\<close>, or 0 in the repeating mode).
  For a finite \<open>idleTimeout\<close> a frame is requested exactly when the elapsed time is at
  most \<open>idleTimeout\<close>.
\<close>

theorem tick_without_changes:
  assumes "fst (updateObservers h w) = False" and "wasCycleStarted w"
  shows "(if js_gt (Fin (h_now h - cycleStartTime (w_controller w))) (idleTimeout (w_controller w))
          then w_frames (scheduleUpdate h (Some t) w) = w_frames w \<and>
               \<not> isUpdateScheduled (w_controller (scheduleUpdate h (Some t) w)) \<and>
               cycleStartTime (w_controller (scheduleUpdate h (Some t) w)) =
                 (if repeatCycle (w_controller w) then 0 else - 1)
          else w_frames (scheduleUpdate h (Some t) w) = w_frames w + 1 \<and>
               isUpdateScheduled (w_controller (scheduleUpdate h (Some t) w)) \<and>
               cycleStartTime (w_controller (scheduleUpdate h (Some t) w)) =
                 cycleStartTime (w_controller w)) \<and>
         (idleTimeout (w_controller w) = Fin T \<longrightarrow>
            (w_frames (scheduleUpdate h (Some t) w) = w_frames w + 1) =
            (h_now h - cycleStartTime (w_controller w) \<le> T))"
proof -
  obtain w1 where u: "updateObservers h w = (False, w1)"
    using assms(1) by (cases "updateObservers h w") simp
  note f = updateObservers_frame [OF u]
  let ?w2 = "w1\<lparr>w_controller := (w_controller w)\<lparr>isUpdateScheduled := False\<rparr>\<rparr>"
  let ?ended = "js_gt (Fin (h_now h - cycleStartTime (w_controller w))) (idleTimeout (w_controller w))"
  have s: "scheduleUpdate h (Some t) w = (if \<not> ?ended then requestUpdate ?w2 else onCycleEnded ?w2)"
    using u assms(2) f
    by (simp add: scheduleUpdate_def Let_def wasCycleStarted_def hasIdleTimeEnded_def)
  show ?thesis
  proof (cases ?ended)
    case True
    then show ?thesis using f by (auto simp: s onCycleEnded_def Let_def)
  next
    case False
    then show ?thesis using f by (auto simp: s requestUpdate_def)
  qed
qed

text \<open>Thirty and sixty milliseconds into a cycle with the timeout 50.\<close>

theorem tick_without_changes_witness:
  "fst (updateObservers (hostAt 130) measuredWorld) = False \<and>
   fst (updateObservers (hostAt 160) measuredWorld) = False \<and>
   wasCycleStarted measuredWorld \<and>
   idleTimeout (w_controller measuredWorld) = Fin 50 \<and>
   h_now (hostAt 130) - cycleStartTime (w_controller measuredWorld) = 30 \<and>
   w_frames (scheduleUpdate (hostAt 130) (Some 130) measuredWorld) = w_frames measuredWorld + 1 \<and>
   h_now (hostAt 160) - cycleStartTime (w_controller measuredWorld) = 60 \<and>
   w_frames (scheduleUpdate (hostAt 160) (Some 160) measuredWorld) = w_frames measuredWorld \<and>
   cycleStartTime (w_controller (scheduleUpdate (hostAt 160) (Some 160) measuredWorld)) = - 1"
  using tick_without_changes [where h = "hostAt 130" and w = measuredWorld and t = 130 and T = 50]
        tick_without_changes [where h = "hostAt 160" and w = measuredWorld and t = 160 and T = 50]
  by (simp add: measured_steady measured_controller wasCycleStarted_def hostAt_now)

text \<open>The claim as stated fails when the elapsed time equals the timeout: 50 is not
  less than 50, and the tick requests another frame and leaves the cycle running.\<close>

theorem tick_at_timeout_counterexample:
  "fst (updateObservers (hostAt 150) measuredWorld) = False \<and>
   wasCycleStarted measuredWorld \<and>
   idleTimeout (w_controller measuredWorld) = Fin 50 \<and>
   h_now (hostAt 150) - cycleStartTime (w_controller measuredWorld) = 50 \<and>
   \<not> (h_now (hostAt 150) - cycleStartTime (w_controller measuredWorld) < 50) \<and>
   w_frames (scheduleUpdate (hostAt 150) (Some 150) measuredWorld) = w_frames measuredWorld + 1 \<and>
   cycleStartTime (w_controller (scheduleUpdate (hostAt 150) (Some 150) measuredWorld)) = 100"
  by (simp add: measured_controller measured_observer measured_frames eval_world eval_update eval_geometry)

section \<open>Connected observers\<close>

lemma requestUpdate_frame:
  "observers (w_controller (requestUpdate w)) = observers (w_controller w) \<and>
   w_observer (requestUpdate w) = w_observer w"
  by (simp add: requestUpdate_def)

lemma startUpdateCycle_frame:
  "observers (w_controller (startUpdateCycle h w)) = observers (w_controller w) \<and>
   w_observer (startUpdateCycle h w) = w_observer w"
  by (simp add: startUpdateCycle_def requestUpdate_def)

lemma onCycleEnded_frame:
  "observers (w_controller (onCycleEnded w)) = observers (w_controller w) \<and>
   w_observer (onCycleEnded w) = w_observer w"
  by (simp add: onCycleEnded_def Let_def)

lemma initListeners_frame:
  "observers (w_controller (initListeners h w)) = observers (w_controller w) \<and>
   w_observer (initListeners h w) = w_observer w"
  by (simp add: initListeners_def Let_def addHoverListener_def startUpdateCycle_def requestUpdate_def)

lemma removeListeners_frame:
  "observers (w_controller (removeListeners h w)) = observers (w_controller w) \<and>
   w_observer (removeListeners h w) = w_observer w"
  by (simp add: removeListeners_def Let_def removeHoverListener_def)

lemma controllerConnect_frame:
  "observers (w_controller (controllerConnect h w ob)) =
     (if ob \<in> set (observers (w_controller w)) then observers (w_controller w)
      else observers (w_controller w) @ [ob]) \<and>
   w_observer (controllerConnect h w ob) = w_observer w"
  by (simp add: controllerConnect_def Let_def isConnected_def initListeners_frame)

lemma controllerDisconnect_frame:
  "observers (w_controller (controllerDisconnect h w ob)) = remove1 ob (observers (w_controller w)) \<and>
   w_observer (controllerDisconnect h w ob) = w_observer w"
  by (simp add: controllerDisconnect_def Let_def removeListeners_frame remove1_idem)

lemma disconnect_frame:
  "observers (w_controller (disconnect h ob w)) = remove1 ob (observers (w_controller w)) \<and>
   w_observer (disconnect h ob w) = (w_observer w)(ob := (w_observer w ob)\<lparr>targets := []\<rparr>)"
  by (simp add: disconnect_def controllerDisconnect_frame setObserver_def)

lemma disconnect_invariant:
  "connectedInvariant w \<Longrightarrow> connectedInvariant (disconnect h ob w)"
  by (auto simp: connectedInvariant_def disconnect_frame)

lemma observe_invariant:
  assumes "connectedInvariant w" "observe h ob arg w = Inr w'"
  shows "connectedInvariant w'"
proof (cases arg)
  case NoArgument
  with assms show ?thesis by (simp add: observe_def)
next
  case NotAnElement
  with assms show ?thesis by (simp add: observe_def)
next
  case (Element target)
  show ?thesis
  proof (cases "hasTarget (w_observer w ob) target")
    case True
    with assms Element show ?thesis by (simp add: observe_def)
  next
    case False
    let ?w1 = "setObserver ob ((w_observer w ob)\<lparr>targets := targets (w_observer w ob) @ [(target, IntersectionObservation)]\<rparr>) w"
    let ?w2 = "if \<not> isConnected ?w1 ob then controllerConnect h ?w1 ob else ?w1"
    from assms(2) Element False have w': "w' = startUpdateCycle h ?w2"
      by (simp add: observe_def Let_def)
    have c1: "w_controller ?w1 = w_controller w" and s1: "w_observer ?w1 =
        (w_observer w)(ob := (w_observer w ob)\<lparr>targets := targets (w_observer w ob) @ [(target, IntersectionObservation)]\<rparr>)"
      by (simp_all add: setObserver_def)
    have o2: "observers (w_controller ?w2) =
        (if ob \<in> set (observers (w_controller w)) then observers (w_controller w)
         else observers (w_controller w) @ [ob])"
      unfolding isConnected_def by (simp add: controllerConnect_frame c1)
    have s2: "w_observer ?w2 = w_observer ?w1"
      by (simp add: controllerConnect_frame)
    have o': "observers (w_controller w') =
        (if ob \<in> set (observers (w_controller w)) then observers (w_controller w)
         else observers (w_controller w) @ [ob])"
      unfolding w' using o2 by (simp only: startUpdateCycle_frame)
    have s': "w_observer w' =
        (w_observer w)(ob := (w_observer w ob)\<lparr>targets := targets (w_observer w ob) @ [(target, IntersectionObservation)]\<rparr>)"
      unfolding w' using s2 s1 by (simp only: startUpdateCycle_frame)
    show ?thesis
      using assms(1) unfolding connectedInvariant_def o' s' by auto
  qed
qed

lemma unobserve_invariant:
  assumes "connectedInvariant w" "unobserve h ob arg w = Inr w'"
  shows "connectedInvariant w'"
proof (cases arg)
  case NoArgument
  with assms show ?thesis by (simp add: unobserve_def)
next
  case NotAnElement
  with assms show ?thesis by (simp add: unobserve_def)
next
  case (Element target)
  define w1 where "w1 =
     (if hasTarget (w_observer w ob) target
      then setObserver ob ((w_observer w ob)\<lparr>targets := filter (\<lambda>p. fst p \<noteq> target) (targets (w_observer w ob))\<rparr>) w
      else w)"
  have c1: "w_controller w1 = w_controller w" by (simp add: w1_def setObserver_def)
  have s1: "x \<noteq> ob \<Longrightarrow> w_observer w1 x = w_observer w x" for x
    by (simp add: w1_def setObserver_def)
  from assms(1) have d: "distinct (observers (w_controller w))"
    and n: "\<And>x. x \<in> set (observers (w_controller w)) \<Longrightarrow> targets (w_observer w x) \<noteq> []"
    by (simp_all add: connectedInvariant_def)
  show ?thesis
  proof (cases "targets (w_observer w1 ob) = []")
    case True
    with assms(2) Element have w': "w' = disconnect h ob w1"
      by (auto simp: unobserve_def Let_def w1_def split: if_splits)
    have o': "observers (w_controller w') = remove1 ob (observers (w_controller w))"
      by (simp add: w' disconnect_frame c1)
    have s': "x \<noteq> ob \<Longrightarrow> w_observer w' x = w_observer w x" for x
      by (simp add: w' disconnect_frame s1)
    show ?thesis
      unfolding connectedInvariant_def o' using d n s' by auto
  next
    case False
    with assms(2) Element have w': "w' = w1"
      by (auto simp: unobserve_def Let_def w1_def split: if_splits)
    show ?thesis
      unfolding connectedInvariant_def w' c1 using d n s1 False by metis
  qed
qed

lemma frame_invariant:
  assumes "connectedInvariant w"
  shows "connectedInvariant (scheduleUpdate h (Some t) w)"
proof -
  obtain ch w1 where u: "updateObservers h w = (ch, w1)" by (cases "updateObservers h w")
  note f = updateObservers_frame [OF u]
  let ?w2 = "w1\<lparr>w_controller := (w_controller w1)\<lparr>isUpdateScheduled := False\<rparr>\<rparr>"
  have t: "targets (w_observer w1 x) = [] \<longleftrightarrow> targets (w_observer w x) = []" for x
    using f by (metis map_is_Nil_conv)
  have i2: "connectedInvariant ?w2"
    using assms f t by (simp add: connectedInvariant_def)
  have r: "scheduleUpdate h (Some t) w = ?w2 \<or> scheduleUpdate h (Some t) w = startUpdateCycle h ?w2
      \<or> scheduleUpdate h (Some t) w = requestUpdate ?w2 \<or> scheduleUpdate h (Some t) w = onCycleEnded ?w2"
    using u by (simp add: scheduleUpdate_def Let_def)
  have p: "connectedInvariant (startUpdateCycle h ?w2)" "connectedInvariant (requestUpdate ?w2)"
      "connectedInvariant (onCycleEnded ?w2)"
    using i2 unfolding connectedInvariant_def
    by (simp_all add: startUpdateCycle_frame requestUpdate_frame onCycleEnded_frame)
  from r i2 p show ?thesis by metis
qed

lemma perform_invariant:
  "connectedInvariant w \<Longrightarrow> connectedInvariant (perform h op w)"
proof (cases op)
  case (Observe ob arg)
  assume "connectedInvariant w"
  then show ?thesis using Observe observe_invariant [of w h ob arg]
    by (cases "observe h ob arg w") simp_all
next
  case (Unobserve ob arg)
  assume "connectedInvariant w"
  then show ?thesis using Unobserve unobserve_invariant [of w h ob arg]
    by (cases "unobserve h ob arg w") simp_all
next
  case (Disconnect ob)
  assume "connectedInvariant w"
  then show ?thesis using Disconnect by (simp add: disconnect_invariant)
next
  case (Frame t)
  assume "connectedInvariant w"
  then show ?thesis using Frame by (simp add: frame_invariant)
qed

lemma run_invariant:
  "connectedInvariant w \<Longrightarrow> connectedInvariant (run ops w)"
proof (induction ops arbitrary: w)
  case Nil
  then show ?case by simp
next
  case (Cons a ops)
  obtain h op where a: "a = (h, op)" by (cases a)
  from Cons show ?case by (simp add: a perform_invariant)
qed

lemma initial_invariant: "connectedInvariant (initialWorld obs)"
  by (simp add: connectedInvariant_def initialWorld_def newController_def)

text \<open>
  Claim C8.  After every sequence of \<open>observe\<close>, \<open>unobserve\<close> and \<open>disconnect\<close> calls
  (and animation frames) from the initial world, every observer in the controller's
  list has a target registered.
\<close>

theorem connected_observers_have_targets:
  "\<forall>ob \<in> set (observers (w_controller (run ops (initialWorld obs)))).
     targets (w_observer (run ops (initialWorld obs)) ob) \<noteq> []"
  using run_invariant [OF initial_invariant, of ops obs]
  by (simp add: connectedInvariant_def)

text \<open>After the sample run the second observer is connected and holds its target; the first is not connected and holds none.\<close>

theorem connected_observers_have_targets_witness:
  "observers (w_controller (run sampleRun (initialWorld (\<lambda>ob. plainObserver [0])))) = [1] \<and>
   targets (w_observer (run sampleRun (initialWorld (\<lambda>ob. plainObserver [0]))) 1) \<noteq> [] \<and>
   targets (w_observer (run sampleRun (initialWorld (\<lambda>ob. plainObserver [0]))) 0) = []"
  using connected_observers_have_targets [of sampleRun "\<lambda>ob. plainObserver [0]"]
  by (simp add: sampleRun_def eval_world eval_update eval_geometry)

lemma queued_controller:
  "observers (w_controller queuedWorld) = [0]"
  by (simp add: queuedWorld_def eval_world eval_update eval_geometry)

lemma queued_observer:
  "targets (w_observer queuedWorld 0) = [(7, halfVisible)] \<and>
   length (quedEntries (w_observer queuedWorld 0)) = 1"
  by (simp add: queuedWorld_def eval_world eval_update eval_geometry)

text \<open>
  Claim C2, as the code has it.  When \<open>unobserve\<close> of a registered target leaves the
  registry of an observer empty (the observer being in the controller's list at most
  once), the registry is empty afterwards and the observer is no longer connected; the
  queue of pending entries is left as it was.
\<close>

theorem unobserve_last_target:
  assumes "hasTarget (w_observer w ob) target"
    and "filter (\<lambda>p. fst p \<noteq> target) (targets (w_observer w ob)) = []"
    and "distinct (observers (w_controller w))"
  shows "case unobserve h ob (Element target) w of
           Inl e \<Rightarrow> False
         | Inr w' \<Rightarrow>
             targets (w_observer w' ob) = [] \<and> \<not> isConnected w' ob \<and>
             quedEntries (w_observer w' ob) = quedEntries (w_observer w ob)"
proof -
  let ?w1 = "setObserver ob ((w_observer w ob)\<lparr>targets := []\<rparr>) w"
  have u: "unobserve h ob (Element target) w = Inr (disconnect h ob ?w1)"
    using assms(1,2) by (simp add: unobserve_def Let_def setObserver_def)
  have o: "observers (w_controller (disconnect h ob ?w1)) = remove1 ob (observers (w_controller w))"
    by (simp add: disconnect_frame setObserver_def)
  have s: "w_observer (disconnect h ob ?w1) ob = (w_observer w ob)\<lparr>targets := []\<rparr>"
    by (simp add: disconnect_frame setObserver_def)
  have "\<not> isConnected (disconnect h ob ?w1) ob"
    unfolding isConnected_def o using assms(3) by simp
  with u s show ?thesis by simp
qed

text \<open>The observer of the world with a queued entry gives up its only target.\<close>

theorem unobserve_last_target_witness:
  "hasTarget (w_observer queuedWorld 0) 7 \<and>
   filter (\<lambda>p. fst p \<noteq> 7) (targets (w_observer queuedWorld 0)) = [] \<and>
   distinct (observers (w_controller queuedWorld)) \<and>
   (case unobserve (hostAt 130) 0 (Element 7) queuedWorld of
      Inl e \<Rightarrow> False
    | Inr w' \<Rightarrow>
        targets (w_observer w' 0) = [] \<and> \<not> isConnected w' 0 \<and>
        length (quedEntries (w_observer w' 0)) = 1)"
  using unobserve_last_target [of queuedWorld 0 7 "hostAt 130"]
  by (simp add: queued_controller queued_observer hasTarget_def split: sum.splits)

text \<open>The claim as stated fails: after \<open>unobserve\<close> has emptied the registry and
  disconnected the observer, the entry queued before is still in the queue.\<close>

theorem unobserve_keeps_queue_counterexample:
  "hasTarget (w_observer queuedWorld 0) 7 \<and>
   (case unobserve (hostAt 130) 0 (Element 7) queuedWorld of
      Inl e \<Rightarrow> False
    | Inr w' \<Rightarrow> targets (w_observer w' 0) = [] \<and> \<not> isConnected w' 0 \<and>
                quedEntries (w_observer w' 0) \<noteq> [])"
  by (simp add: queuedWorld_def eval_world eval_update eval_geometry)

end
